theory Spec2Isabelle
  imports Complex_Main "HOL-Library.Word" "HOL-Library.Monad_Syntax"
begin

unbundle bit_operations_syntax

section \<open>Conventions\<close>

text \<open>
  The development embeds the token-derivation engine: \<open>utils.ts\<close> (\<open>floatToHex\<close>,
  \<open>isOdd\<close>, \<open>base64Encode\<close>), \<open>interpolate.ts\<close>, \<open>rotation.ts\<close>, \<open>cubic_curve.ts\<close>
  (class \<open>Cubic\<close>) and the class \<open>ClientTransaction\<close>.

  \<^item> A JavaScript \<open>number\<close> is an exact \<open>real\<close>; \<open>Math.floor\<close> is \<open>\<lfloor>_\<rfloor>\<close>. Rounding,
    infinities and signed zeros are not part of this model; \<open>NaN\<close>, which arises only from
    a read beyond the end of the key bytes, is \<open>None\<close>. Concrete evaluations are chosen so
    that every intermediate value is a binary64 number and every operation on it is exact.
    The loop of \<open>Cubic.getValue\<close>, whose termination depends on rounding, is modelled a
    second time over binary64 numbers.
  \<^item> A byte of a \<open>Uint8Array\<close> is an \<open>8 word\<close>; a typed array is a list of fixed length.
  \<^item> A \<open>throw\<close> is the \<open>Inl\<close> of a sum; a loop that has no bound in the source is a
    \<open>partial_function\<close> in the option monad, \<open>None\<close> meaning that the loop does not return.
  \<^item> Strings are lists of characters.
\<close>

type_synonym u8 = "8 word"

datatype error =
    MismatchedInterpolationArguments
  | CannotInterpolate
  | KeyBytesUndefinedOrEmpty
  | InvalidKeyBytes
  | NoAnimationData
  | InvalidFrameRow
  | InvalidFramesData
  | InsufficientCurveValues
  | KeyExtractionFailed
  | EmptyKey
  | InvalidCharacter

section \<open>utils.ts\<close>

subsection \<open>Number to string\<close>

text \<open>\<open>Number.prototype.toString()\<close> on an integer: its decimal digits, with a sign.\<close>

fun digits10 :: "nat \<Rightarrow> string" where
  "digits10 n = (if n < 10 then [char_of (48 + n)] else digits10 (n div 10) @ [char_of (48 + n mod 10)])"

declare digits10.simps [simp del]

definition toString :: "int \<Rightarrow> string" where
  "toString i = (if i < 0 then CHR ''-'' # digits10 (nat (- i)) else digits10 (nat i))"

subsection \<open>floatToHex\<close>

text \<open>
  One digit of \<open>floatToHex\<close>: \<open>String.fromCharCode(d + 55)\<close> when \<open>d > 9\<close>, else
  \<open>d.toString()\<close>.
\<close>

definition hexDigit :: "int \<Rightarrow> string" where
  "hexDigit d = (if d > 9 then [char_of (d + 55)] else toString d)"

text \<open>
  The first loop, \<open>while (quotient > 0) { quotient = Math.floor(x / 16); ...; x = quotient; }\<close>.
  \<open>result.unshift\<close> puts the digit in front.
\<close>

function intLoop :: "real \<Rightarrow> int \<Rightarrow> string list \<Rightarrow> string list" where
  "intLoop x quot result =
     (if quot > 0 then
        (let quot' = \<lfloor>x / 16\<rfloor>;
             remainder = \<lfloor>x - of_int quot' * 16\<rfloor>
         in intLoop (of_int quot') quot' (hexDigit remainder # result))
      else result)"
  by pat_completeness auto
termination
proof (relation "measure (\<lambda>(x, quot, result). if quot > 0 then Suc (nat \<lfloor>x\<rfloor>) else 0)")
  show "wf (measure (\<lambda>(x, quot, result). if quot > 0 then Suc (nat \<lfloor>x\<rfloor>) else 0))"
    by simp
next
  fix x :: real and quot :: int and result :: "string list" and q' r
  assume q: "0 < quot" and q': "q' = \<lfloor>x / 16\<rfloor>"
  show "((real_of_int q', q', hexDigit r # result), (x, quot, result))
       \<in> measure (\<lambda>(x, quot, result). if quot > 0 then Suc (nat \<lfloor>x\<rfloor>) else 0)"
  proof (cases "0 < q'")
    case False
    with q show ?thesis by simp
  next
    case True
    then have "1 \<le> x / 16" using q' by linarith
    then have x1: "1 \<le> x" and "x / 16 \<le> x - 1" by simp_all
    moreover have "real_of_int q' \<le> x / 16" unfolding q' by (rule of_int_floor_le)
    ultimately have "real_of_int q' < real_of_int \<lfloor>x\<rfloor>" by linarith
    then have "q' < \<lfloor>x\<rfloor>" by simp
    with True q x1 show ?thesis by simp
  qed
qed

declare intLoop.simps [simp del]

text \<open>
  The second loop, \<open>while (fraction > 0) { fraction *= 16; ... }\<close>. It has no bound: on a
  fraction with no finite base-16 expansion it does not return.
\<close>

partial_function (option) fracLoop :: "real \<Rightarrow> string list \<Rightarrow> string list option" where
  "fracLoop fraction result =
     (if fraction > 0 then
        fracLoop (fraction * 16 - of_int \<lfloor>fraction * 16\<rfloor>) (result @ [hexDigit \<lfloor>fraction * 16\<rfloor>])
      else Some result)"

definition floatToHex :: "real \<Rightarrow> string option" where
  "floatToHex x =
     (let quot = \<lfloor>x\<rfloor>;
          fraction = x - of_int quot;
          result = intLoop x quot []
      in if fraction = 0 then Some (concat result)
         else map_option concat (fracLoop fraction (result @ [''.''])))"

text \<open>
  The integer loop as the specification words it: the quotient is \<open>\<lfloor>x / 16\<rfloor>\<close> of the
  original \<open>x\<close> at every step. Used only to compare with \<open>intLoop\<close>.
\<close>

partial_function (option) intLoop_as_specified :: "real \<Rightarrow> int \<Rightarrow> string list \<Rightarrow> string list option" where
  "intLoop_as_specified x0 quot result =
     (if quot > 0 then
        intLoop_as_specified x0 \<lfloor>x0 / 16\<rfloor> (hexDigit (\<lfloor>x0 - of_int \<lfloor>x0 / 16\<rfloor> * 16\<rfloor>) # result)
      else Some result)"

text \<open>Ordinary radix-16 digits of a natural number, most significant first, none for 0.\<close>

fun hexDigits :: "nat \<Rightarrow> string" where
  "hexDigits n = (if n = 0 then [] else hexDigits (n div 16) @ hexDigit (int (n mod 16)))"

declare hexDigits.simps [simp del]

definition isOdd :: "nat \<Rightarrow> real" where
  "isOdd num = (if num mod 2 \<noteq> 0 then - 1 else 0)"

section \<open>interpolate.ts\<close>

datatype jsval = is_Num: Num (numOf: real) | Bool (boolOf: bool)

fun interpolateNum :: "jsval \<Rightarrow> jsval \<Rightarrow> real \<Rightarrow> error + jsval" where
  "interpolateNum (Num fromVal) (Num toVal) f = Inr (Num (fromVal * (1 - f) + toVal * f))"
| "interpolateNum (Bool fromVal) (Bool toVal) f = Inr (Bool (if f < 0.5 then fromVal else toVal))"
| "interpolateNum _ _ f = Inl CannotInterpolate"

text \<open>
  The \<open>for\<close> loop of \<open>interpolate\<close>, from index \<open>i\<close> on: it pushes one element per step and
  stops at the first \<open>throw\<close>.
\<close>

function interpolateLoop ::
  "jsval list \<Rightarrow> jsval list \<Rightarrow> real \<Rightarrow> nat \<Rightarrow> jsval list \<Rightarrow> error + jsval list" where
  "interpolateLoop fromList toList f i out =
     (if i < length fromList then
        (case interpolateNum (fromList ! i) (toList ! i) f of
           Inl e \<Rightarrow> Inl e
         | Inr v \<Rightarrow> interpolateLoop fromList toList f (Suc i) (out @ [v]))
      else Inr out)"
  by pat_completeness auto
termination
  by (relation "measure (\<lambda>(fromList, toList, f, i, out). length fromList - i)") auto

declare interpolateLoop.simps [simp del]

definition interpolate :: "jsval list \<Rightarrow> jsval list \<Rightarrow> real \<Rightarrow> error + jsval list" where
  "interpolate fromList toList f =
     (if length fromList \<noteq> length toList then Inl MismatchedInterpolationArguments
      else interpolateLoop fromList toList f 0 [])"


section \<open>Typed arrays and platform primitives\<close>

text \<open>
  A \<open>Uint8Array\<close> has a fixed length and is zero-filled when made. A store converts the
  number modulo 256; a store at an index beyond the end does nothing. A read beyond the
  end is \<open>undefined\<close>, which a bitwise operator takes as 0.
\<close>

definition u8_new :: "nat \<Rightarrow> u8 list" where
  "u8_new n = replicate n 0"

definition u8_set :: "u8 list \<Rightarrow> nat \<Rightarrow> int \<Rightarrow> u8 list" where
  "u8_set arr i v = (if i < length arr then arr[i := word_of_int v] else arr)"

definition u8_get :: "u8 list \<Rightarrow> nat \<Rightarrow> int option" where
  "u8_get arr i = (if i < length arr then Some (uint (arr ! i)) else None)"

definition bitOperand :: "int option \<Rightarrow> int" where
  "bitOperand v = (case v of None \<Rightarrow> 0 | Some k \<Rightarrow> k)"

text \<open>\<open>ToInt32\<close>, applied by \<open>>>\<close> to its left operand.\<close>

definition toInt32 :: "int \<Rightarrow> int" where
  "toInt32 k = sint (word_of_int k :: 32 word)"

text \<open>\<open>new TextEncoder().encode\<close>: the string's bytes.\<close>

definition encode :: "string \<Rightarrow> u8 list" where
  "encode s = map of_char s"

text \<open>
  \<open>btoa\<close> on the binary string of a byte array: base64 with the standard alphabet and
  \<open>=\<close> padding. \<open>base64Encode\<close> of \<open>utils.ts\<close> calls it on the bytes.
\<close>

definition b64chars :: string where
  "b64chars = ''ABCDEFGHIJKLMNOPQRSTUVWXYZabcdefghijklmnopqrstuvwxyz0123456789+/''"

fun btoa :: "u8 list \<Rightarrow> string" where
  "btoa [] = []"
| "btoa [a] =
     (let n = unat a * 65536
      in [b64chars ! (n div 262144), b64chars ! (n div 4096 mod 64), CHR ''='', CHR ''=''])"
| "btoa [a, b] =
     (let n = unat a * 65536 + unat b * 256
      in [b64chars ! (n div 262144), b64chars ! (n div 4096 mod 64),
          b64chars ! (n div 64 mod 64), CHR ''=''])"
| "btoa (a # b # c # rest) =
     (let n = unat a * 65536 + unat b * 256 + unat c
      in [b64chars ! (n div 262144), b64chars ! (n div 4096 mod 64),
          b64chars ! (n div 64 mod 64), b64chars ! (n mod 64)] @ btoa rest)"

definition base64Encode :: "u8 list \<Rightarrow> string" where
  "base64Encode data = btoa data"

text \<open>
  What the instance takes from its platform: the SHA-256 digest, the clock
  (\<open>Date.now()\<close>), the value \<open>Math.random()\<close> returns, and \<open>atob\<close> (\<open>None\<close> when it throws).
\<close>

record env =
  sha256 :: "u8 list \<Rightarrow> u8 list"
  now :: int
  random :: real
  atob :: "string \<Rightarrow> u8 list option"

section \<open>ClientTransaction: generateTransactionId\<close>

text \<open>A frame element of the document: the \<open>d\<close> attribute of each \<open>path\<close> below it.\<close>

type_synonym frame = "string option list"

text \<open>
  The parsed home page, as far as the class queries it: the \<open>content\<close> attribute of the
  \<open>twitter-site-verification\<close> meta element (\<open>None\<close>: no such element, \<open>Some None\<close>: no
  attribute) and the elements whose id starts with \<open>loading-x-anim\<close>.
\<close>

record document =
  siteVerification :: "string option option"
  animFrames :: "frame list"

record clientTransaction =
  defaultRowIndex :: "nat option"
  defaultKeyBytesIndices :: "nat list option"
  homePage :: document
  key :: "string option"
  keyBytes :: "u8 list option"
  animationKey :: string

definition ADDITIONAL_RANDOM_NUMBER :: int where
  "ADDITIONAL_RANDOM_NUMBER = 3"

definition DEFAULT_KEYWORD :: string where
  "DEFAULT_KEYWORD = ''obfiowerehiring''"

text \<open>\<open>timeNow || Math.floor((Date.now() - 1682924400000) / 1000)\<close>: 0 and \<open>undefined\<close> are falsy.\<close>

definition defaultTime :: "env \<Rightarrow> int" where
  "defaultTime e = (now e - 1682924400000) div 1000"

definition effectiveTime :: "env \<Rightarrow> int option \<Rightarrow> int" where
  "effectiveTime e timeNow =
     (case timeNow of None \<Rightarrow> defaultTime e | Some t \<Rightarrow> if t = 0 then defaultTime e else t)"

text \<open>\<open>for (let i = 0; i < 4; i++) timeNowBytes[i] = (timeNow >> (i * 8)) & 0xFF\<close>\<close>

definition timeBytes :: "int \<Rightarrow> u8 list" where
  "timeBytes timeNow =
     fold (\<lambda>i arr. u8_set arr i (drop_bit (i * 8) (toInt32 timeNow) AND 255)) [0..<4] (u8_new 4)"

text \<open>\<open>for (let i = 0; i < n; i++) bytesArr[pos++] = src[i] ^ randomNum\<close>, on the pair of the array and \<open>pos\<close>.\<close>

definition copyXor :: "u8 list \<Rightarrow> nat \<Rightarrow> int \<Rightarrow> u8 list \<times> nat \<Rightarrow> u8 list \<times> nat" where
  "copyXor src n randomNum =
     fold (\<lambda>i (bytesArr, pos). (u8_set bytesArr pos (bitOperand (u8_get src i) XOR randomNum), Suc pos)) [0..<n]"

definition transactionBytes :: "env \<Rightarrow> u8 list \<Rightarrow> string \<Rightarrow> string \<Rightarrow> string \<Rightarrow> int \<Rightarrow> u8 list" where
  "transactionBytes e kb animKey method path timeNow =
     (let timeNowBytes = timeBytes timeNow;
          stringToHash = method @ ''!'' @ path @ ''!'' @ toString timeNow @ DEFAULT_KEYWORD @ animKey;
          hashBytes = sha256 e (encode stringToHash);
          randomNum = \<lfloor>random e * 256\<rfloor>;
          bytesArr = u8_new (length kb + length timeNowBytes + 16 + 1);
          bytesArr = u8_set bytesArr 0 randomNum;
          (bytesArr, pos) = copyXor kb (length kb) randomNum (bytesArr, 1);
          (bytesArr, pos) = copyXor timeNowBytes (length timeNowBytes) randomNum (bytesArr, pos);
          (bytesArr, pos) = copyXor hashBytes 16 randomNum (bytesArr, pos)
      in u8_set bytesArr pos (ADDITIONAL_RANDOM_NUMBER XOR randomNum))"

definition generateTransactionId ::
  "env \<Rightarrow> clientTransaction \<Rightarrow> string \<Rightarrow> string \<Rightarrow> int option \<Rightarrow> error + string" where
  "generateTransactionId e this method path timeNow =
     (case keyBytes this of
        None \<Rightarrow> Inl KeyBytesUndefinedOrEmpty
      | Some kb \<Rightarrow>
          if length kb = 0 then Inl KeyBytesUndefinedOrEmpty
          else Inr (filter (\<lambda>c. c \<noteq> CHR ''='')
                 (base64Encode
                    (transactionBytes e kb (animationKey this) method path (effectiveTime e timeNow)))))"

text \<open>
  The buffer as the specification words it: the random byte, then the key bytes, the four
  little-endian bytes of the timestamp, the first 16 digest bytes and the constant 3, each
  XORed with the random byte. Used only to compare with \<open>transactionBytes\<close>.
\<close>

definition bytes_as_specified :: "u8 \<Rightarrow> u8 list \<Rightarrow> int \<Rightarrow> u8 list \<Rightarrow> u8 list" where
  "bytes_as_specified r kb timeNow digest =
     [r] @ map (\<lambda>b. b XOR r) kb
         @ map (\<lambda>i. word_of_int (timeNow div 256 ^ i) XOR r) [0..<4]
         @ map (\<lambda>b. b XOR r) (take 16 digest)
         @ [3 XOR r]"

section \<open>rotation.ts\<close>

definition convertRotationToMatrix :: "real \<Rightarrow> real list" where
  "convertRotationToMatrix rotation =
     (let rad = rotation * pi / 180 in [cos rad, - sin rad, sin rad, cos rad])"

section \<open>cubic_curve.ts\<close>

definition calculate :: "real \<Rightarrow> real \<Rightarrow> real \<Rightarrow> real" where
  "calculate a b m = 3 * a * (1 - m) * (1 - m) * m + 3 * b * (1 - m) * m * m + m * m * m"

text \<open>
  The loop \<open>while (start < end)\<close> of \<open>getValue\<close>, on the variables \<open>start\<close>, \<open>mid\<close>
  and \<open>end\<close>. The source puts no bound on the number of iterations.
\<close>

partial_function (option) bisect :: "real list \<Rightarrow> real \<Rightarrow> real \<Rightarrow> real \<Rightarrow> real \<Rightarrow> real option" where
  "bisect curves time start mid end' =
     (if start < end' then
        (if \<bar>time - calculate (curves ! 0) (curves ! 2) ((start + end') / 2)\<bar> < 0.00001
         then Some (calculate (curves ! 1) (curves ! 3) ((start + end') / 2))
         else if calculate (curves ! 0) (curves ! 2) ((start + end') / 2) < time
         then bisect curves time ((start + end') / 2) ((start + end') / 2) end'
         else bisect curves time start ((start + end') / 2) ((start + end') / 2))
      else Some (calculate (curves ! 1) (curves ! 3) mid))"

definition getValue :: "real list \<Rightarrow> real \<Rightarrow> real option" where
  "getValue curves time =
     (if time \<le> 0 then
        (let startGradient =
               (if curves ! 0 > 0 then curves ! 1 / curves ! 0
                else if curves ! 1 = 0 \<and> curves ! 2 > 0 then curves ! 3 / curves ! 2
                else 0)
         in Some (startGradient * time))
      else if time \<ge> 1 then
        (let endGradient =
               (if curves ! 2 < 1 then (curves ! 3 - 1) / (curves ! 2 - 1)
                else if curves ! 2 = 1 \<and> curves ! 0 < 1 then (curves ! 1 - 1) / (curves ! 0 - 1)
                else 0)
         in Some (1 + endGradient * (time - 1)))
      else bisect curves time 0 0 1)"

text \<open>
  \<open>getValue(NaN)\<close>: every comparison with the time is false, so neither early return is
  taken and each iteration assigns \<open>end = mid\<close>.
\<close>

partial_function (option) bisectNaN :: "real list \<Rightarrow> real \<Rightarrow> real \<Rightarrow> real \<Rightarrow> real option" where
  "bisectNaN curves start mid end' =
     (if start < end' then bisectNaN curves start ((start + end') / 2) ((start + end') / 2)
      else Some (calculate (curves ! 1) (curves ! 3) mid))"

text \<open>The time is \<open>None\<close> when it is \<open>NaN\<close>.\<close>

definition getValueNum :: "real list \<Rightarrow> real option \<Rightarrow> real option" where
  "getValueNum curves time =
     (case time of None \<Rightarrow> bisectNaN curves 0 0 1 | Some t \<Rightarrow> getValue curves t)"

section \<open>ClientTransaction: the animation key\<close>

subsection \<open>String helpers of get2DArray\<close>

definition isDigit :: "char \<Rightarrow> bool" where
  "isDigit c = (c \<in> set ''0123456789'')"

text \<open>\<open>item.replace(/[^\d]+/g, ' ')\<close>: every maximal run of non-digits becomes one space.\<close>

function replaceNonDigits :: "string \<Rightarrow> string" where
  "replaceNonDigits [] = []"
| "replaceNonDigits (c # cs) =
     (if isDigit c then c # replaceNonDigits cs
      else CHR '' '' # replaceNonDigits (dropWhile (\<lambda>c. \<not> isDigit c) cs))"
  by pat_completeness auto
termination
  by (relation "measure length") (auto simp: length_dropWhile_le less_Suc_eq_le)

definition isWhiteSpace :: "char \<Rightarrow> bool" where
  "isWhiteSpace c = (c \<in> set [CHR '' '', CHR 0x09, CHR 0x0A, CHR 0x0B, CHR 0x0C, CHR 0x0D])"

definition trim :: "string \<Rightarrow> string" where
  "trim s = rev (dropWhile isWhiteSpace (rev (dropWhile isWhiteSpace s)))"

text \<open>\<open>s.split(sep)\<close> for a one-character separator; the empty string gives one empty piece.\<close>

fun splitOn :: "char \<Rightarrow> string \<Rightarrow> string list" where
  "splitOn sep [] = [[]]"
| "splitOn sep (c # cs) =
     (if c = sep then [] # splitOn sep cs
      else (case splitOn sep cs of [] \<Rightarrow> [[c]] | r # rs \<Rightarrow> (c # r) # rs))"

text \<open>\<open>parseInt(x, 10)\<close> on a string of decimal digits.\<close>

definition parseInt :: "string \<Rightarrow> nat" where
  "parseInt x = foldl (\<lambda>acc c. acc * 10 + (of_char c - 48)) 0 x"

text \<open>One path segment to its row of integers.\<close>

definition parseRow :: "string \<Rightarrow> nat list" where
  "parseRow item =
     map parseInt (filter (\<lambda>x. length x > 0) (splitOn CHR '' '' (trim (replaceNonDigits item))))"

subsection \<open>get2DArray\<close>

definition fallbackRow :: "nat list" where
  "fallbackRow = [0, 0, 0, 255, 255, 255, 120, 100, 100, 0, 0, 1]"

definition getFrames :: "clientTransaction \<Rightarrow> frame list" where
  "getFrames this = animFrames (homePage this)"

text \<open>
  \<open>frames.eq(frameIndex)\<close> is the frame at that index; \<open>frame.find('path')\<close> is the list of
  its path elements and \<open>path.attr('d')\<close> the attribute of the first of them. A missing
  attribute and the empty string are both falsy.
\<close>

definition get2DArray :: "clientTransaction \<Rightarrow> u8 list \<Rightarrow> frame list option \<Rightarrow> error + nat list list" where
  "get2DArray this keyBytes' frames0 =
     (if length keyBytes' < 6 then Inl InvalidKeyBytes
      else
        let frames = (case frames0 of None \<Rightarrow> getFrames this | Some fs \<Rightarrow> fs) in
        if length frames = 0 then Inr [fallbackRow]
        else
          let frameIndex = unat (keyBytes' ! 5) mod max (length frames) 1 in
          if \<not> frameIndex < length frames then Inr [fallbackRow]
          else
            let path = frames ! frameIndex in
            if length path = 0 then Inr [fallbackRow]
            else
              (case hd path of
                 None \<Rightarrow> Inr [fallbackRow]
               | Some pathData \<Rightarrow>
                   if pathData = [] then Inr [fallbackRow]
                   else if length pathData < 10 then Inr [fallbackRow]
                   else
                     let pathSegments = splitOn CHR ''C'' (drop 9 pathData);
                         result = map parseRow pathSegments
                     in if length result = 0 \<or> length (hd result) < 7 then Inr [fallbackRow]
                        else Inr result))"

subsection \<open>solve and animate\<close>

text \<open>\<open>Number(x.toFixed(2))\<close>: the nearest multiple of 0.01, a tie going away from zero.\<close>

definition toFixed2 :: "real \<Rightarrow> real" where
  "toFixed2 x = (if x < 0 then - (of_int \<lfloor>- x * 100 + 1 / 2\<rfloor> / 100) else of_int \<lfloor>x * 100 + 1 / 2\<rfloor> / 100)"

definition solve :: "real \<Rightarrow> real \<Rightarrow> real \<Rightarrow> bool \<Rightarrow> real" where
  "solve value minVal maxVal rounding =
     (let result = value * (maxVal - minVal) / 255 + minVal
      in if rounding then of_int \<lfloor>result\<rfloor> else toFixed2 result)"

text \<open>\<open>Math.round(value).toString(16)\<close>: lower-case radix-16 digits of the nearest integer.\<close>

definition hexDigitLower :: "nat \<Rightarrow> char" where
  "hexDigitLower d = ''0123456789abcdef'' ! d"

fun hexLower :: "nat \<Rightarrow> string" where
  "hexLower n = (if n < 16 then [hexDigitLower n] else hexLower (n div 16) @ [hexDigitLower (n mod 16)])"

declare hexLower.simps [simp del]

definition roundToString16 :: "real \<Rightarrow> string" where
  "roundToString16 v =
     (let n = \<lfloor>v + 1 / 2\<rfloor> in if n < 0 then CHR ''-'' # hexLower (nat (- n)) else hexLower (nat n))"

definition toLowerCase :: "string \<Rightarrow> string" where
  "toLowerCase s = map (\<lambda>c. if c \<in> set ''ABCDEFGHIJKLMNOPQRSTUVWXYZ'' then char_of (of_char c + (32 :: nat)) else c) s"

text \<open>The body of \<open>for (const value of matrix)\<close>: the string pushed for one matrix entry.\<close>

definition matrixEntry :: "real \<Rightarrow> string option" where
  "matrixEntry value =
     (let rounded = toFixed2 value;
          rounded = (if rounded < 0 then - rounded else rounded)
      in case floatToHex rounded of
           None \<Rightarrow> None
         | Some hexValue \<Rightarrow>
             Some (if take 1 hexValue = ''.'' then CHR ''0'' # toLowerCase hexValue
                   else if hexValue = [] then ''0'' else hexValue))"

text \<open>\<open>value > 0 ? value : 0\<close>\<close>

definition clampColor :: "jsval \<Rightarrow> real" where
  "clampColor value = (if numOf value > 0 then numOf value else 0)"

text \<open>
  The \<open>try\<close> block of \<open>animate\<close>. The outer option is \<open>None\<close> when one of the unbounded
  loops (in \<open>getValue\<close>, in \<open>floatToHex\<close>) does not return. The colour and rotation lists
  hold numbers only.
\<close>

definition animateBody :: "nat list \<Rightarrow> real option \<Rightarrow> (error + string) option" where
  "animateBody frames targetTime =
     (if length frames < 7 then Some (Inl InvalidFramesData)
      else
        let fromColor = map (\<lambda>n. Num (real n)) (take 3 frames) @ [Num 1];
            toColor = map (\<lambda>n. Num (real n)) (take 3 (drop 3 frames)) @ [Num 1];
            fromRotation = [Num 0];
            toRotation = [Num (solve (real (frames ! 6)) 60 360 True)];
            curveValues = map (\<lambda>(index, item). solve (real item) (isOdd index) 1 False)
                              (enumerate 0 (drop 7 frames))
        in if length curveValues < 4 then Some (Inl InsufficientCurveValues)
           else
             (case getValueNum curveValues targetTime of
                None \<Rightarrow> None
              | Some val \<Rightarrow>
                  (case interpolate fromColor toColor val of
                     Inl e \<Rightarrow> Some (Inl e)
                   | Inr color0 \<Rightarrow>
                       let color = map clampColor color0 in
                       (case interpolate fromRotation toRotation val of
                          Inl e \<Rightarrow> Some (Inl e)
                        | Inr rotation \<Rightarrow>
                            let matrix = convertRotationToMatrix (numOf (rotation ! 0));
                                strArr = map roundToString16 (butlast color)
                            in (case those (map matrixEntry matrix) of
                                  None \<Rightarrow> None
                                | Some ms \<Rightarrow>
                                    Some (Inr (filter (\<lambda>c. c \<noteq> CHR ''.'' \<and> c \<noteq> CHR ''-'')
                                                 (concat (strArr @ ms @ [''0'', ''0''])))))))))"

text \<open>\<open>animate\<close>: the \<open>catch\<close> turns every \<open>throw\<close> of the body into the fallback key.\<close>

definition animate :: "nat list \<Rightarrow> real option \<Rightarrow> string option" where
  "animate frames targetTime =
     (case animateBody frames targetTime of
        None \<Rightarrow> None
      | Some (Inl e) \<Rightarrow> Some ''1e00f00''
      | Some (Inr s) \<Rightarrow> Some s)"

subsection \<open>getAnimationKey\<close>





subsection \<open>create\<close>







section \<open>Binary64 arithmetic and the loop of getValue\<close>

text \<open>
  The engine computes with binary64 numbers. A finite one is \<open>m * 2 ^ e\<close> for an integer
  \<open>m\<close> of at most 53 bits, here the pair \<open>(m, e)\<close> with \<open>m\<close> odd (and \<open>(0, 0)\<close> for zero).
  An arithmetic operation returns the exact result rounded to 53 significant bits, a tie
  going to the even significand. The exponent range (overflow, subnormal numbers),
  infinities and \<open>NaN\<close> are outside this model; it is used on runs whose values stay in
  range.
\<close>

type_synonym b64 = "int \<times> int"

definition b64_value :: "b64 \<Rightarrow> real" where
  "b64_value x = of_int (fst x) * 2 powr of_int (snd x)"



















section \<open>Properties of floatToHex\<close>

lemma hexDigit_eval:
  "hexDigit 0 = ''0''" "hexDigit 1 = ''1''" "hexDigit 2 = ''2''" "hexDigit 3 = ''3''"
  "hexDigit 4 = ''4''" "hexDigit 5 = ''5''" "hexDigit 6 = ''6''" "hexDigit 7 = ''7''"
  "hexDigit 8 = ''8''" "hexDigit 9 = ''9''" "hexDigit 10 = ''A''" "hexDigit 11 = ''B''"
  "hexDigit 12 = ''C''" "hexDigit 13 = ''D''" "hexDigit 14 = ''E''" "hexDigit 15 = ''F''"
  by code_simp+

text \<open>
  C5. The encoder on the three test vectors: \<open>255\<close> gives \<open>FF\<close>, \<open>0.5\<close> gives \<open>.8\<close>, and \<open>0\<close>
  gives the empty string. All three inputs and every intermediate value (\<open>15.9375\<close>, \<open>15\<close>,
  \<open>0.9375\<close>, \<open>8\<close>) are binary64 numbers, so the exact arithmetic is the code's.
\<close>

theorem floatToHex_vectors:
  "floatToHex 255 = Some ''FF'' \<and> floatToHex 0.5 = Some ''.8'' \<and> floatToHex 0 = Some ''''"
  by (simp add: floatToHex_def intLoop.simps fracLoop.simps hexDigit_eval)

lemma floor_div16: "\<lfloor>x / 16\<rfloor> = \<lfloor>x\<rfloor> div 16" for x :: real
  using floor_divide_real_eq_div [of 16 x] by simp

lemma floor_minus_mult16: "\<lfloor>x - of_int m * 16\<rfloor> = \<lfloor>x\<rfloor> - m * 16" for x :: real
proof -
  have "x - of_int m * 16 = x - of_int (m * 16)" by simp
  then show ?thesis by (simp only: floor_diff_of_int)
qed

lemma floor_minus_mult16_nat: "\<lfloor>real n - real m * 16\<rfloor> = int n - int m * 16"
  using floor_minus_mult16 [of "real n" "int m"] by simp

text \<open>The first iteration sees only the integer part of \<open>x\<close>.\<close>

lemma intLoop_floor: "intLoop x \<lfloor>x\<rfloor> res = intLoop (of_int \<lfloor>x\<rfloor>) \<lfloor>x\<rfloor> res"
  by (subst intLoop.simps, subst (2) intLoop.simps) (simp add: floor_div16 floor_minus_mult16 Let_def)

text \<open>On a natural number the loop is repeated division by 16 of the shrinking quotient.\<close>

lemma intLoop_nat: "concat (intLoop (of_nat n) (int n) res) = hexDigits n @ concat res"
proof (induction n arbitrary: res rule: less_induct)
  case (less n)
  show ?case
  proof (cases "n = 0")
    case True
    then show ?thesis by (simp add: intLoop.simps hexDigits.simps)
  next
    case False
    have a: "\<lfloor>real n / 16\<rfloor> = int (n div 16)" by (simp add: floor_div16 zdiv_int)
    have b: "\<lfloor>real n - real (n div 16) * 16\<rfloor> = int (n mod 16)"
      by (simp add: floor_minus_mult16_nat zmod_int zdiv_int minus_div_mult_eq_mod)
    have lt: "n div 16 < n" using False by simp
    have "concat (intLoop (real n) (int n) res)
        = concat (intLoop (real (n div 16)) (int (n div 16)) (hexDigit (int (n mod 16)) # res))"
      using False by (subst intLoop.simps) (simp add: a b Let_def)
    also have "\<dots> = hexDigits (n div 16) @ concat (hexDigit (int (n mod 16)) # res)"
      by (rule less.IH [OF lt])
    also have "\<dots> = hexDigits n @ concat res"
      using False by (subst (2) hexDigits.simps) simp
    finally show ?thesis .
  qed
qed

lemma intLoop_as_specified_255: "intLoop_as_specified x0 q res = Some y \<Longrightarrow> x0 = 255 \<longrightarrow> q \<le> 0"
  by (rule intLoop_as_specified.raw_induct [where P = "\<lambda>x0 q res y. x0 = 255 \<longrightarrow> q \<le> 0"])
     (fastforce split: if_splits)

text \<open>
  C6, as stated, fails at \<open>x = 255\<close>. The code's loop runs twice there: the first iteration
  computes the quotient \<open>\<lfloor>255 / 16\<rfloor> = 15\<close> and stores it in \<open>x\<close>, the second computes
  \<open>\<lfloor>15 / 16\<rfloor> = 0\<close> from that \<open>x\<close> and the loop exits with the digits \<open>F\<close>, \<open>F\<close>. With the
  quotient recomputed from the original \<open>255\<close> it would be 15 at every step and the loop
  would not return.
\<close>

theorem intLoop_not_from_original_x:
  "intLoop 255 \<lfloor>255 :: real\<rfloor> [] = [''F'', ''F''] \<and> intLoop_as_specified 255 \<lfloor>255 :: real\<rfloor> [] = None"
proof
  show "intLoop 255 \<lfloor>255 :: real\<rfloor> [] = [''F'', ''F'']"
    by (simp add: intLoop.simps hexDigit_eval)
  show "intLoop_as_specified 255 \<lfloor>255 :: real\<rfloor> [] = None"
  proof (cases "intLoop_as_specified 255 \<lfloor>255 :: real\<rfloor> []")
    case None
    then show ?thesis .
  next
    case (Some y)
    from intLoop_as_specified_255 [OF this] show ?thesis by simp
  qed
qed

text \<open>
  C6, amended. Each iteration computes \<open>\<lfloor>x / 16\<rfloor>\<close> from the current \<open>x\<close> and then stores
  that quotient in \<open>x\<close>, so the loop is the ordinary repeated division; it is entered when
  \<open>\<lfloor>x\<rfloor> > 0\<close> and left when the quotient is \<open>\<le> 0\<close>. Hence the integer part it emits for any
  \<open>x\<close> is the radix-16 numeral of \<open>\<lfloor>x\<rfloor>\<close> (nothing when \<open>\<lfloor>x\<rfloor> \<le> 0\<close>), and an integer
  \<open>n \<ge> 0\<close> is encoded as exactly that numeral.
\<close>

theorem intLoop_repeated_division:
  "concat (intLoop x \<lfloor>x\<rfloor> []) = hexDigits (nat \<lfloor>x\<rfloor>) \<and> floatToHex (of_nat n) = Some (hexDigits n)"
proof
  show "concat (intLoop x \<lfloor>x\<rfloor> []) = hexDigits (nat \<lfloor>x\<rfloor>)"
  proof (cases "0 \<le> \<lfloor>x\<rfloor>")
    case True
    then have "concat (intLoop (of_int \<lfloor>x\<rfloor>) \<lfloor>x\<rfloor> []) = hexDigits (nat \<lfloor>x\<rfloor>)"
      using intLoop_nat [of "nat \<lfloor>x\<rfloor>" "[]"] by simp
    then show ?thesis by (simp only: intLoop_floor)
  next
    case False
    then show ?thesis by (simp add: intLoop.simps hexDigits.simps)
  qed
  show "floatToHex (of_nat n) = Some (hexDigits n)"
    using intLoop_nat [of n "[]"] by (simp add: floatToHex_def)
qed

section \<open>Properties of interpolate\<close>

lemma interpolateLoop_eq:
  "length fromList = length toList \<Longrightarrow> i \<le> length fromList \<Longrightarrow>
   interpolateLoop fromList toList f i out =
     (if \<exists>j. i \<le> j \<and> j < length fromList \<and> is_Num (fromList ! j) \<noteq> is_Num (toList ! j)
      then Inl CannotInterpolate
      else Inr (out @ map2 (\<lambda>a b. if is_Num a then Num (numOf a * (1 - f) + numOf b * f)
                                   else Bool (if f < 0.5 then boolOf a else boolOf b))
                          (drop i fromList) (drop i toList)))"
proof (induction fromList toList f i out rule: interpolateLoop.induct)
  case (1 fromList toList f i out)
  show ?case
  proof (cases "i < length fromList")
    case False
    with 1 show ?thesis by (subst interpolateLoop.simps) auto
  next
    case True
    note lt = True
    show ?thesis
    proof (cases "is_Num (fromList ! i) = is_Num (toList ! i)")
      case False
      then have "interpolateNum (fromList ! i) (toList ! i) f = Inl CannotInterpolate"
        by (cases "fromList ! i"; cases "toList ! i") auto
      moreover have "\<exists>j. i \<le> j \<and> j < length fromList \<and> is_Num (fromList ! j) \<noteq> is_Num (toList ! j)"
        using False lt by blast
      ultimately show ?thesis using lt by (subst interpolateLoop.simps) simp
    next
      case same: True
      define v where "v = (if is_Num (fromList ! i)
          then Num (numOf (fromList ! i) * (1 - f) + numOf (toList ! i) * f)
          else Bool (if f < 0.5 then boolOf (fromList ! i) else boolOf (toList ! i)))"
      have iv: "interpolateNum (fromList ! i) (toList ! i) f = Inr v"
        using same unfolding v_def by (cases "fromList ! i"; cases "toList ! i") auto
      have ex: "(\<exists>j. i \<le> j \<and> j < length fromList \<and> is_Num (fromList ! j) \<noteq> is_Num (toList ! j))
            = (\<exists>j. Suc i \<le> j \<and> j < length fromList \<and> is_Num (fromList ! j) \<noteq> is_Num (toList ! j))"
        using same by (metis Suc_leI le_neq_implies_less Suc_leD)
      have d1: "drop i fromList = fromList ! i # drop (Suc i) fromList"
        using lt by (simp add: Cons_nth_drop_Suc)
      have d2: "drop i toList = toList ! i # drop (Suc i) toList"
        using lt "1.prems" by (simp add: Cons_nth_drop_Suc)
      have "interpolateLoop fromList toList f i out = interpolateLoop fromList toList f (Suc i) (out @ [v])"
        using lt iv by (subst interpolateLoop.simps) simp
      also have "\<dots> =
        (if \<exists>j. Suc i \<le> j \<and> j < length fromList \<and> is_Num (fromList ! j) \<noteq> is_Num (toList ! j)
         then Inl CannotInterpolate
         else Inr ((out @ [v]) @ map2 (\<lambda>a b. if is_Num a then Num (numOf a * (1 - f) + numOf b * f)
                                              else Bool (if f < 0.5 then boolOf a else boolOf b))
                          (drop (Suc i) fromList) (drop (Suc i) toList)))"
        using lt "1.prems" iv by (intro "1.IH") auto
      finally have "interpolateLoop fromList toList f i out =
        (if \<exists>j. Suc i \<le> j \<and> j < length fromList \<and> is_Num (fromList ! j) \<noteq> is_Num (toList ! j)
         then Inl CannotInterpolate
         else Inr ((out @ [v]) @ map2 (\<lambda>a b. if is_Num a then Num (numOf a * (1 - f) + numOf b * f)
                                              else Bool (if f < 0.5 then boolOf a else boolOf b))
                          (drop (Suc i) fromList) (drop (Suc i) toList)))" .
      then show ?thesis
        unfolding ex [symmetric]
        by (simp only: d1 d2 v_def zip_Cons_Cons list.map prod.case append.simps append_assoc)
    qed
  qed
qed

text \<open>
  C7. \<open>interpolate\<close> throws exactly when the lengths differ or some position pairs a number
  with a boolean. Otherwise it returns, position by position, \<open>from * (1 - f) + to * f\<close> for
  two numbers and, for two booleans, \<open>from\<close> if \<open>f < 0.5\<close> and \<open>to\<close> if not.
\<close>

theorem interpolate_characterisation:
  "interpolate fromList toList f =
     (if length fromList \<noteq> length toList then Inl MismatchedInterpolationArguments
      else if \<exists>i<length fromList. is_Num (fromList ! i) \<noteq> is_Num (toList ! i) then Inl CannotInterpolate
      else Inr (map2 (\<lambda>a b. if is_Num a then Num (numOf a * (1 - f) + numOf b * f)
                              else Bool (if f < 0.5 then boolOf a else boolOf b)) fromList toList))"
  by (auto simp: interpolate_def interpolateLoop_eq)

theorem interpolate_characterisation_witness:
  "interpolate [Num 0, Bool True] [Num 10, Bool False] (3 / 5) = Inr [Num 6, Bool False]"
proof -
  have "\<not> (\<exists>i<length [Num 0, Bool True]. is_Num ([Num 0, Bool True] ! i) \<noteq> is_Num ([Num 10, Bool False] ! i))"
    by (simp add: less_Suc_eq ex_disj_distrib conj_disj_distribR)
  then show ?thesis
    by (simp add: interpolate_characterisation [of "[Num 0, Bool True]" "[Num 10, Bool False]" "3 / 5"])
qed

section \<open>Properties of generateTransactionId\<close>

lemma u8_set_length [simp]: "length (u8_set arr i v) = length arr"
  by (simp add: u8_set_def)

lemma copyXor_Suc:
  "copyXor src (Suc n) r s =
     (case copyXor src n r s of (arr, pos) \<Rightarrow> (u8_set arr pos (bitOperand (u8_get src n) XOR r), Suc pos))"
  by (simp add: copyXor_def)

lemma copyXor_eq:
  "pos + n \<le> length arr \<Longrightarrow>
   copyXor src n r (arr, pos) =
     (take pos arr @ map (\<lambda>i. word_of_int (bitOperand (u8_get src i) XOR r)) [0..<n] @ drop (pos + n) arr, pos + n)"
proof (induction n)
  case 0
  then show ?case by (simp add: copyXor_def)
next
  case (Suc n)
  let ?f = "\<lambda>i. word_of_int (bitOperand (u8_get src i) XOR r) :: u8"
  let ?M = "map ?f [0..<n]"
  from Suc.prems have le: "pos + n < length arr" by simp
  have d: "drop (pos + n) arr = arr ! (pos + n) # drop (Suc (pos + n)) arr"
    using le by (simp add: Cons_nth_drop_Suc)
  have IH: "copyXor src n r (arr, pos) = (take pos arr @ ?M @ drop (pos + n) arr, pos + n)"
    using Suc.IH le by simp
  have len: "pos + n < length (take pos arr @ ?M @ drop (pos + n) arr)"
    using le by simp
  have "u8_set (take pos arr @ ?M @ drop (pos + n) arr) (pos + n) (bitOperand (u8_get src n) XOR r)
      = (take pos arr @ ?M @ drop (pos + n) arr)[pos + n := ?f n]"
    using len by (simp only: u8_set_def if_True)
  also have "\<dots> = take pos arr @ ?M @ (drop (pos + n) arr)[0 := ?f n]"
    using le by (simp add: list_update_append)
  also have "\<dots> = take pos arr @ (?M @ [?f n]) @ drop (Suc (pos + n)) arr"
    by (subst d) simp
  finally show ?case
    by (simp add: copyXor_Suc IH)
qed

lemma copyXor_fill:
  "length pre = pos \<Longrightarrow>
   copyXor src n r (pre @ replicate n 0 @ post, pos) =
     (pre @ map (\<lambda>i. word_of_int (bitOperand (u8_get src i) XOR r)) [0..<n] @ post, pos + n)"
  by (subst copyXor_eq) simp_all

lemma replicate4: "replicate 4 (0 :: u8) = [0, 0, 0, 0]"
  by (simp add: numeral_eq_Suc)

lemma upt4: "[0..<4] = [0, 1, 2, 3]"
  by (simp add: upt_rec)

lemma timeBytes_eq: "timeBytes t = map (\<lambda>i. word_of_int (drop_bit (i * 8) (toInt32 t) AND 255)) [0..<4]"
  by (simp add: timeBytes_def u8_new_def u8_set_def upt4 replicate4)

lemma timeBytes_length [simp]: "length (timeBytes t) = 4"
  by (simp add: timeBytes_eq)

lemma and_255: "k AND 255 = take_bit 8 k" for k :: int
  by (simp add: take_bit_eq_mask mask_eq_exp_minus_1)

lemma pow256: "(256 :: int) ^ i = 2 ^ (i * 8)"
proof -
  have "(256 :: int) ^ i = (2 ^ 8) ^ i" by simp
  also have "\<dots> = 2 ^ (8 * i)" by (simp only: power_mult)
  finally show ?thesis by (simp add: mult.commute)
qed

lemma time_byte_bits:
  assumes "i < 4"
  shows "(word_of_int (take_bit 8 (drop_bit (i * 8) (signed_take_bit 31 t))) :: u8) = word_of_int (drop_bit (i * 8) t)"
proof (rule bit_word_eqI)
  fix n assume n: "n < LENGTH(8)"
  then have "n < 8" by simp
  with assms have m: "min 31 (i * 8 + n) = i * 8 + n" by simp
  show "bit (word_of_int (take_bit 8 (drop_bit (i * 8) (signed_take_bit 31 t))) :: u8) n
        = bit (word_of_int (drop_bit (i * 8) t) :: u8) n"
    using n \<open>n < 8\<close> by (simp add: bit_word_of_int_iff bit_take_bit_iff bit_drop_bit_eq bit_signed_take_bit_iff m)
qed

lemma time_byte: "i < 4 \<Longrightarrow> (word_of_int (drop_bit (i * 8) (toInt32 t) AND 255) :: u8) = word_of_int (t div 256 ^ i)"
  using time_byte_bits [of i t]
  by (simp add: and_255 toInt32_def sint_sbintrunc' drop_bit_eq_div pow256)

lemma xor_byte: "(word_of_int (uint b XOR r) :: u8) = b XOR word_of_int r"
proof -
  have "(word_of_int (uint b XOR r) :: u8) = word_of_int (uint b) XOR word_of_int r"
    by (rule word_wi_log_defs(4) [symmetric])
  then show ?thesis by (simp only: word_of_int_uint)
qed

lemma u8_new_first: "u8_set (u8_new (Suc n)) 0 r = word_of_int r # replicate n 0"
  by (simp add: u8_set_def u8_new_def)

text \<open>
  The buffer is allocated with \<open>keyBytes.length + 4 + 16 + 1\<close> bytes, one fewer than the
  \<open>1 + keyBytes.length + 4 + 16 + 1\<close> the code then writes: after the three copy loops
  \<open>pos\<close> equals the length of the array and the final store of \<open>3 ^ randomNum\<close> is beyond
  its end. So the encoded buffer is the specified one without its last byte.
\<close>

lemma transactionBytes_eq:
  assumes "16 \<le> length (sha256 e (encode (method @ ''!'' @ path @ ''!'' @ toString t @ DEFAULT_KEYWORD @ ak)))"
  shows "transactionBytes e kb ak method path t =
     butlast (bytes_as_specified (word_of_int \<lfloor>random e * 256\<rfloor>) kb t
        (sha256 e (encode (method @ ''!'' @ path @ ''!'' @ toString t @ DEFAULT_KEYWORD @ ak))))"
proof -
  define r where "r = \<lfloor>random e * 256\<rfloor>"
  define h where "h = sha256 e (encode (method @ ''!'' @ path @ ''!'' @ toString t @ DEFAULT_KEYWORD @ ak))"
  let ?f = "\<lambda>src i. word_of_int (bitOperand (u8_get src i) XOR r) :: u8"
  have h16: "16 \<le> length h" using assms by (simp only: h_def)
  have m1: "map (?f kb) [0..<length kb] = map (\<lambda>b. b XOR word_of_int r) kb"
    by (rule nth_equalityI) (simp_all add: u8_get_def bitOperand_def xor_byte)
  have m2: "map (?f (timeBytes t)) [0..<4] = map (\<lambda>i. word_of_int (t div 256 ^ i) XOR word_of_int r) [0..<4]"
    by (rule nth_equalityI) (simp_all add: u8_get_def bitOperand_def xor_byte timeBytes_eq time_byte)
  have m3: "map (?f h) [0..<16] = map (\<lambda>b. b XOR word_of_int r) (take 16 h)"
    using h16 by (intro nth_equalityI) (simp_all add: u8_get_def bitOperand_def xor_byte)
  have a0: "u8_set (u8_new (length kb + length (timeBytes t) + 16 + 1)) 0 r
      = [word_of_int r] @ replicate (length kb) 0 @ (replicate 4 0 @ replicate 16 0)"
    using u8_new_first [of "length kb + 20" r] by (simp add: replicate_add [symmetric])
  have s1: "copyXor kb (length kb) r ([word_of_int r] @ replicate (length kb) 0 @ (replicate 4 0 @ replicate 16 0), 1)
      = ([word_of_int r] @ map (?f kb) [0..<length kb] @ (replicate 4 0 @ replicate 16 0), 1 + length kb)"
    by (rule copyXor_fill) simp
  have s2: "copyXor (timeBytes t) 4 r (([word_of_int r] @ map (?f kb) [0..<length kb]) @ replicate 4 0 @ replicate 16 0, 1 + length kb)
      = (([word_of_int r] @ map (?f kb) [0..<length kb]) @ map (?f (timeBytes t)) [0..<4] @ replicate 16 0, 1 + length kb + 4)"
    by (rule copyXor_fill) simp
  have s3: "copyXor h 16 r (([word_of_int r] @ map (?f kb) [0..<length kb] @ map (?f (timeBytes t)) [0..<4]) @ replicate 16 0 @ [], 1 + length kb + 4)
      = (([word_of_int r] @ map (?f kb) [0..<length kb] @ map (?f (timeBytes t)) [0..<4]) @ map (?f h) [0..<16] @ [], 1 + length kb + 4 + 16)"
    by (rule copyXor_fill) simp
  have "transactionBytes e kb ak method path t
      = [word_of_int r] @ map (?f kb) [0..<length kb] @ map (?f (timeBytes t)) [0..<4] @ map (?f h) [0..<16]"
    unfolding transactionBytes_def Let_def r_def [symmetric] h_def [symmetric] a0
    using s1 s2 s3 by (simp add: u8_set_def)
  then have "transactionBytes e kb ak method path t
      = [word_of_int r] @ map (\<lambda>b. b XOR word_of_int r) kb
          @ map (\<lambda>i. word_of_int (t div 256 ^ i) XOR word_of_int r) [0..<4]
          @ map (\<lambda>b. b XOR word_of_int r) (take 16 h)"
    by (simp only: m1 m2 m3)
  then show ?thesis
    by (simp add: bytes_as_specified_def h_def r_def butlast_append)
qed

lemma replicate16: "replicate 16 x = [x, x, x, x, x, x, x, x, x, x, x, x, x, x, x, x]"
  by (simp add: numeral_eq_Suc)

lemma spec_bytes_example:
  "bytes_as_specified 128 [1] 1 (replicate 32 0)
     = [128, 129, 129, 128, 128, 128, 128, 128, 128, 128, 128, 128, 128, 128, 128, 128, 128, 128, 128, 128, 128, 128, 131]"
  by (simp add: bytes_as_specified_def upt4 replicate16)

lemma code_bytes_example:
  "transactionBytes \<lparr>sha256 = \<lambda>_. replicate 32 0, now = 0, random = 1 / 2, atob = \<lambda>_. None\<rparr>
       [1] ''1e00f00'' ''GET'' ''/'' 1
     = [128, 129, 129, 128, 128, 128, 128, 128, 128, 128, 128, 128, 128, 128, 128, 128, 128, 128, 128, 128, 128, 128]"
  by (subst transactionBytes_eq) (simp_all add: spec_bytes_example)

lemma btoa_example:
  "btoa [128, 129, 129, 128, 128, 128, 128, 128, 128, 128, 128, 128, 128, 128, 128, 128, 128, 128, 128, 128, 128, 128]
    = ''gIGBgICAgICAgICAgICAgICAgICAgA==''"
  by (simp add: b64chars_def)

text \<open>
  C1 fails on the code. With the one-byte key \<open>[1]\<close>, timestamp 1, a digest of zero bytes
  and the random byte 128 the specified buffer has 23 bytes and ends with \<open>3 XOR 128 = 131\<close>;
  the buffer the code encodes has 22 bytes, the last being a digest byte, and the token is the
  base64 text of those 22 bytes.
\<close>

theorem generateTransactionId_drops_last_byte:
  "transactionBytes \<lparr>sha256 = \<lambda>_. replicate 32 0, now = 0, random = 1 / 2, atob = \<lambda>_. None\<rparr>
       [1] ''1e00f00'' ''GET'' ''/'' 1
     = [128, 129, 129, 128, 128, 128, 128, 128, 128, 128, 128, 128, 128, 128, 128, 128, 128, 128, 128, 128, 128, 128]
   \<and> bytes_as_specified 128 [1] 1 (replicate 32 0)
     = [128, 129, 129, 128, 128, 128, 128, 128, 128, 128, 128, 128, 128, 128, 128, 128, 128, 128, 128, 128, 128, 128, 131]
   \<and> generateTransactionId \<lparr>sha256 = \<lambda>_. replicate 32 0, now = 0, random = 1 / 2, atob = \<lambda>_. None\<rparr>
       \<lparr>defaultRowIndex = None, defaultKeyBytesIndices = None,
        homePage = \<lparr>siteVerification = None, animFrames = []\<rparr>,
        key = None, keyBytes = Some [1], animationKey = ''1e00f00''\<rparr>
       ''GET'' ''/'' (Some 1)
     = Inr ''gIGBgICAgICAgICAgICAgICAgICAgA''"
  by (simp add: generateTransactionId_def effectiveTime_def base64Encode_def
        code_bytes_example spec_bytes_example btoa_example del: btoa.simps)




section \<open>Properties of get2DArray\<close>

lemma splitOn_nonempty: "splitOn sep s \<noteq> []"
  by (induction s) (auto split: list.splits)

lemma get2DArray_short: "length kb < 6 \<Longrightarrow> get2DArray this kb frames0 = Inl InvalidKeyBytes"
  by (simp add: get2DArray_def)

lemma get2DArray_total: "6 \<le> length kb \<Longrightarrow> \<exists>rows. get2DArray this kb frames0 = Inr rows"
  by (simp add: get2DArray_def Let_def split: option.splits)

lemma get2DArray_fallback_cases:
  assumes "6 \<le> length kb"
    and "frames = (case frames0 of None \<Rightarrow> getFrames this | Some fs \<Rightarrow> fs)"
    and "frames = [] \<or> frames ! (unat (kb ! 5) mod length frames) = [] \<or>
         (case hd (frames ! (unat (kb ! 5) mod length frames)) of
            None \<Rightarrow> True
          | Some pathData \<Rightarrow>
              length pathData < 10 \<or> length (parseRow (hd (splitOn CHR ''C'' (drop 9 pathData)))) < 7)"
  shows "get2DArray this kb frames0 = Inr [fallbackRow]"
proof -
  have hdmap: "hd (map parseRow (splitOn CHR ''C'' s)) = parseRow (hd (splitOn CHR ''C'' s))" for s
    by (simp add: splitOn_nonempty hd_map)
  show ?thesis
    using assms
    by (auto simp: get2DArray_def Let_def hdmap split: option.splits)
qed

text \<open>
  C8, as stated, fails for a key of fewer than six bytes: the first statement of
  \<open>get2DArray\<close> throws \<open>Invalid keyBytes: array too short\<close> before the document is looked at,
  here for the empty key and a document without frames.
\<close>

theorem get2DArray_short_key_raises:
  "get2DArray \<lparr>defaultRowIndex = None, defaultKeyBytesIndices = None,
        homePage = \<lparr>siteVerification = None, animFrames = []\<rparr>,
        key = None, keyBytes = None, animationKey = []\<rparr>
     [] None = Inl InvalidKeyBytes"
  by (simp add: get2DArray_def)

text \<open>
  C8, amended. With fewer than six key bytes \<open>get2DArray\<close> throws. With six or more it never
  throws, and it returns the single fallback row \<open>[0,0,0,255,255,255,120,100,100,0,0,1]\<close>
  when there is no frame, when the selected frame has no path element, when the first path
  has no \<open>d\<close> attribute or one shorter than 10 characters, and when the first row parsed from
  the path data has fewer than 7 integers.
\<close>

theorem get2DArray_fallback:
  "(length kb < 6 \<longrightarrow> get2DArray this kb frames0 = Inl InvalidKeyBytes)
   \<and> (6 \<le> length kb \<longrightarrow>
        (\<exists>rows. get2DArray this kb frames0 = Inr rows)
      \<and> ((let frames = (case frames0 of None \<Rightarrow> getFrames this | Some fs \<Rightarrow> fs)
            in frames = [] \<or> frames ! (unat (kb ! 5) mod length frames) = [] \<or>
               (case hd (frames ! (unat (kb ! 5) mod length frames)) of
                  None \<Rightarrow> True
                | Some pathData \<Rightarrow>
                    length pathData < 10 \<or>
                    length (parseRow (hd (splitOn CHR ''C'' (drop 9 pathData)))) < 7))
           \<longrightarrow> get2DArray this kb frames0 = Inr [fallbackRow]))"
proof (intro conjI impI)
  assume "length kb < 6"
  then show "get2DArray this kb frames0 = Inl InvalidKeyBytes" by (rule get2DArray_short)
next
  assume "6 \<le> length kb"
  then show "\<exists>rows. get2DArray this kb frames0 = Inr rows" by (rule get2DArray_total)
next
  assume "6 \<le> length kb"
    and "let frames = (case frames0 of None \<Rightarrow> getFrames this | Some fs \<Rightarrow> fs)
         in frames = [] \<or> frames ! (unat (kb ! 5) mod length frames) = [] \<or>
            (case hd (frames ! (unat (kb ! 5) mod length frames)) of
               None \<Rightarrow> True
             | Some pathData \<Rightarrow>
                 length pathData < 10 \<or>
                 length (parseRow (hd (splitOn CHR ''C'' (drop 9 pathData)))) < 7)"
  then show "get2DArray this kb frames0 = Inr [fallbackRow]"
    by (intro get2DArray_fallback_cases [OF _ refl]) (simp_all add: Let_def)
qed

theorem get2DArray_fallback_witness:
  "get2DArray \<lparr>defaultRowIndex = None, defaultKeyBytesIndices = None,
        homePage = \<lparr>siteVerification = None, animFrames = []\<rparr>,
        key = None, keyBytes = None, animationKey = []\<rparr>
     [0, 0, 0, 0, 0, 0] None = Inr [fallbackRow]
   \<and> get2DArray \<lparr>defaultRowIndex = None, defaultKeyBytesIndices = None,
        homePage = \<lparr>siteVerification = None, animFrames = []\<rparr>,
        key = None, keyBytes = None, animationKey = []\<rparr>
     [0, 0, 0, 0, 0, 0] (Some [[Some ''M 10 10 C 1 2 3'']]) = Inr [fallbackRow]"
proof -
  have r: "parseRow '' 1 2 3'' = [1, 2, 3]"
    by (simp add: parseRow_def isDigit_def trim_def isWhiteSpace_def parseInt_def)
  show ?thesis
    using get2DArray_fallback [of "[0, 0, 0, 0, 0, 0]" "\<lparr>defaultRowIndex = None, defaultKeyBytesIndices = None,
        homePage = \<lparr>siteVerification = None, animFrames = []\<rparr>,
        key = None, keyBytes = None, animationKey = []\<rparr>" None]
      get2DArray_fallback [of "[0, 0, 0, 0, 0, 0]" "\<lparr>defaultRowIndex = None, defaultKeyBytesIndices = None,
        homePage = \<lparr>siteVerification = None, animFrames = []\<rparr>,
        key = None, keyBytes = None, animationKey = []\<rparr>" "Some [[Some ''M 10 10 C 1 2 3'']]"]
    by (simp add: r getFrames_def)
qed

section \<open>Properties of Cubic.getValue\<close>









section \<open>Properties of the animation key\<close>












lemma ev_animate_empty: "animate [] None = Some ''1e00f00''"
  by (simp add: animate_def animateBody_def)










section \<open>Termination of the bisection\<close>









end
